theory Spec2Isabelle
  imports Complex_Main "HOL-Library.Word"
begin

section \<open>Keyboard mode for a laser distance meter: the model of \<open>measure.py\<close>\<close>

text \<open>
  The script listens to notifications of a Bluetooth distance meter, switches the laser
  on and asks for a measurement on the first notification of a button press, and types
  the distance carried by the next notification. The model follows \<open>measure.py\<close>
  function by function. Python's module globals and everything outside the process are
  one record that each function takes and returns; exceptions are values of a sum type.
\<close>

subsection \<open>Distance payloads: \<open>struct.unpack("<f", data)\<close>\<close>

text \<open>
  A Python float that came out of a 4-byte IEEE-754 single: \<open>Finite s m e\<close> is the
  number \<open>m * 2 ^ e\<close>, negated when \<open>s\<close> holds, and there are the two infinities
  and NaN. The sign is kept apart from the magnitude because \<open>-0.0\<close> prints its sign.
\<close>

datatype pyfloat = Finite bool nat int | Infinity bool | NaN

datatype error = Struct_error | Key_error | Io_error | Cancelled_error

text \<open>
  \<open>Struct_error\<close> is \<open>struct.error\<close>, \<open>Key_error\<close> is \<open>KeyError\<close>, \<open>Io_error\<close> stands for
  any exception an external call raises (of the Bluetooth stack or the operating
  system); all three derive from \<open>Exception\<close>. \<open>Cancelled_error\<close> is
  \<open>asyncio.CancelledError\<close>, which derives from \<open>BaseException\<close> only, so that
  \<open>except Exception\<close> does not catch it.
\<close>

fun is_Exception :: "error \<Rightarrow> bool" where
  "is_Exception Cancelled_error = False"
| "is_Exception _ = True"

text \<open>The 32-bit pattern of a little-endian byte string.\<close>

fun le_bits :: "8 word list \<Rightarrow> nat" where
  "le_bits [] = 0"
| "le_bits (b # bs) = unat b + 256 * le_bits bs"

text \<open>
  The value of a binary32 pattern: bit 31 is the sign, bits 23 to 30 the biased
  exponent \<open>e\<close>, bits 0 to 22 the fraction \<open>m\<close>. A subnormal (\<open>e = 0\<close>) is
  \<open>m * 2 ^ -149\<close>, a normal number is \<open>(2 ^ 23 + m) * 2 ^ (e - 150)\<close>.
\<close>

definition float32_of_bits :: "nat \<Rightarrow> pyfloat" where
  "float32_of_bits n =
     (let sign = ((n div 2 ^ 31) mod 2 = 1);
          e = (n div 2 ^ 23) mod 256;
          m = n mod 2 ^ 23
      in if e = 255 then (if m = 0 then Infinity sign else NaN)
         else if e = 0 then Finite sign m (- 149)
         else Finite sign (2 ^ 23 + m) (int e - 150))"

definition struct_unpack_f :: "8 word list \<Rightarrow> error + pyfloat" where
  "struct_unpack_f data =
     (if length data \<noteq> 4 then Inl Struct_error
      else Inr (float32_of_bits (le_bits data)))"

text \<open>
  \<open>distance_meters * 1000\<close> is a multiplication of doubles. The exact product of
  \<open>m * 2 ^ e\<close> and 1000 is \<open>(m * 1000) * 2 ^ e\<close>; for a value that came out of a
  single, \<open>m * 1000\<close> is below \<open>2 ^ 53\<close> and \<open>e\<close> is inside the exponent range of
  a double (lemma \<open>times_1000_is_double\<close> below), so the exact product is a double and
  the rounding of the multiplication returns it unchanged.
\<close>

fun times_1000 :: "pyfloat \<Rightarrow> pyfloat" where
  "times_1000 (Finite s m e) = Finite s (m * 1000) e"
| "times_1000 (Infinity s) = Infinity s"
| "times_1000 NaN = NaN"

subsection \<open>Formatting: \<open>f"{distance_mm:.1f}"\<close>\<close>

text \<open>
  Python prints the decimal with one digit after the point that is nearest to the exact
  value of the double, a tie going to the even digit; a NaN never prints a sign.
  \<open>round_half_even m e\<close> is \<open>m * 2 ^ e\<close> rounded to a whole number in that way.
\<close>

definition round_half_even :: "nat \<Rightarrow> int \<Rightarrow> nat" where
  "round_half_even m e =
     (if 0 \<le> e then m * 2 ^ nat e
      else let d = 2 ^ nat (- e); f = m div d; r = m mod d
           in if 2 * r < d then f
              else if d < 2 * r then f + 1
              else if even f then f else f + 1)"

fun str_nat :: "nat \<Rightarrow> string" where
  "str_nat n =
     (if n < 10 then [''0123456789'' ! n]
      else str_nat (n div 10) @ [''0123456789'' ! (n mod 10)])"

fun format_1f :: "pyfloat \<Rightarrow> string" where
  "format_1f (Finite s m e) =
     (let n = round_half_even (m * 10) e
      in (if s then ''-'' else '''') @ str_nat (n div 10) @ ''.'' @ str_nat (n mod 10))"
| "format_1f (Infinity s) = (if s then ''-inf'' else ''inf'')"
| "format_1f NaN = ''nan''"

subsection \<open>The world: module globals, the environment and what the process does\<close>

text \<open>
  Every operation on something outside the process is recorded in a trace when it is
  started. \<open>Enter_do_measure\<close> and \<open>Enter_clear_device\<close> are not operations of the
  source: they mark the entry of \<open>do_measure\<close> and \<open>clear_device\<close>, so that the number
  of their invocations can be read off the trace. A \<open>Print\<close> carries the literal text of
  the message; where the source prints an exception after it, the text of the exception
  is left out.
\<close>

datatype action =
    Print string
  | Subprocess_call "string list"
  | Write_gatt_char "8 word list"
  | Sleep rat
  | Discover
  | Connect string
  | Start_notify
  | Add_signal_handler
  | Wait_disconnect_event
  | Disconnect
  | Enter_do_measure
  | Enter_clear_device

text \<open>
  How an awaited operation ends: it returns, it raises an exception of the Bluetooth
  stack, or the task is cancelled while it waits.
\<close>

datatype outcome = Returns | Raises | Cancelled

text \<open>
  \<open>button_clicked\<close> (the \<open>asyncio.Event\<close>, as its flag) and \<open>miss_counter\<close> are the
  module globals of the source. \<open>awaits\<close> lists how the awaited external operations to
  come will end, and \<open>calls\<close> whether the blocking external calls to come will raise
  (\<open>True\<close>); an operation past the end of its list succeeds. \<open>counter_lock\<close> is left
  out: handler invocations are run one after the other here, each to its end, so the
  lock is always free when it is taken.
\<close>

record world =
  button_clicked :: bool
  miss_counter :: int
  awaits :: "outcome list"
  calls :: "bool list"
  trace :: "action list"

definition initial :: "outcome list \<Rightarrow> bool list \<Rightarrow> world" where
  "initial as cs =
     \<lparr>button_clicked = False, miss_counter = 0, awaits = as, calls = cs, trace = []\<rparr>"

definition record_action :: "action \<Rightarrow> world \<Rightarrow> world" where
  "record_action a w = w\<lparr>trace := trace w @ [a]\<rparr>"

definition print :: "string \<Rightarrow> world \<Rightarrow> world" where
  "print s w = record_action (Print s) w"

definition await :: "action \<Rightarrow> world \<Rightarrow> (error + unit) \<times> world" where
  "await a w =
     (let w' = (record_action a w)\<lparr>awaits := tl (awaits w)\<rparr>
      in case awaits w of
           [] \<Rightarrow> (Inr (), w')
         | Returns # _ \<Rightarrow> (Inr (), w')
         | Raises # _ \<Rightarrow> (Inl Io_error, w')
         | Cancelled # _ \<Rightarrow> (Inl Cancelled_error, w'))"

definition call :: "action \<Rightarrow> world \<Rightarrow> (error + unit) \<times> world" where
  "call a w =
     (let w' = (record_action a w)\<lparr>calls := tl (calls w)\<rparr>
      in case calls w of
           [] \<Rightarrow> (Inr (), w')
         | False # _ \<Rightarrow> (Inr (), w')
         | True # _ \<Rightarrow> (Inl Io_error, w'))"

subsection \<open>\<open>send_keys\<close> and \<open>send_enter\<close>\<close>

text \<open>
  Both print the message and go on when \<open>subprocess.call\<close> raises an \<open>Exception\<close>.
\<close>

definition send_keys :: "string \<Rightarrow> world \<Rightarrow> (error + unit) \<times> world" where
  "send_keys keys w =
     (case call (Subprocess_call [''xdotool'', ''type'', keys]) w of
        (Inl e, w') \<Rightarrow>
          if is_Exception e then (Inr (), print ''failed to type'' w') else (Inl e, w')
      | (Inr u, w') \<Rightarrow> (Inr (), w'))"

definition send_enter :: "world \<Rightarrow> (error + unit) \<times> world" where
  "send_enter w =
     (case call (Subprocess_call [''xdotool'', ''key'', ''Return'']) w of
        (Inl e, w') \<Rightarrow>
          if is_Exception e then (Inr (), print ''failed to type'' w') else (Inl e, w')
      | (Inr u, w') \<Rightarrow> (Inr (), w'))"

subsection \<open>The device and the two commands: \<open>do_measure\<close> and \<open>clear_device\<close>\<close>

text \<open>
  A scanned device: its address, its name, its advertisement \<open>metadata\<close> (a dictionary,
  of which only the list under \<open>"uuids"\<close> is read), and whether its GATT table has
  the command and the distance characteristic.
\<close>

record device =
  address :: string
  name :: string
  metadata :: "string \<rightharpoonup> string list"
  has_command_characteristic :: bool
  has_distance_characteristic :: bool

text \<open>
  A client is the connection to one device; \<open>command_characteristic c\<close> says that
  \<open>client.services.get_characteristic(COMMAND_CHARACTERISTIC_UUID)\<close> is not \<open>None\<close>.
\<close>

record client =
  client_address :: string
  command_characteristic :: bool
  distance_characteristic :: bool

definition BleakClient :: "device \<Rightarrow> client" where
  "BleakClient d =
     \<lparr>client_address = address d,
      command_characteristic = has_command_characteristic d,
      distance_characteristic = has_distance_characteristic d\<rparr>"

definition AIM_DELAY :: rat where
  "AIM_DELAY = 3 / 2"

definition laser_on :: "8 word list" where
  "laser_on = [0x6F]"

definition measure :: "8 word list" where
  "measure = [0x67]"

definition laser_off :: "8 word list" where
  "laser_off = [0x70]"

definition do_measure :: "client \<Rightarrow> world \<Rightarrow> (error + unit) \<times> world" where
  "do_measure c w0 =
     (let w1 = record_action Enter_do_measure w0
      in if \<not> command_characteristic c
         then (Inr (), print ''Command characteristic not found.'' w1)
         else
           let (r1, w2) = await (Write_gatt_char laser_on) w1
           in if isl r1 then (r1, w2)
              else
                let (r2, w3) = await (Sleep AIM_DELAY) w2
                in if isl r2 then (r2, w3)
                   else await (Write_gatt_char measure) w3)"

definition clear_device :: "client \<Rightarrow> world \<Rightarrow> (error + unit) \<times> world" where
  "clear_device c w0 =
     (let w1 = record_action Enter_clear_device w0
      in if \<not> command_characteristic c
         then (Inr (), print ''Command characteristic not found.'' w1)
         else await (Write_gatt_char laser_off) w1)"

subsection \<open>The notification handler\<close>

definition handle_distance_notification ::
  "client \<Rightarrow> 8 word list \<Rightarrow> world \<Rightarrow> (error + unit) \<times> world" where
  "handle_distance_notification c data w0 =
     (let w1 = print ''received event'' w0
      in if \<not> button_clicked w1
         then
           let w2 = w1\<lparr>button_clicked := True\<rparr>;
               w3 = w2\<lparr>miss_counter := miss_counter w2 + 1\<rparr>
           in if miss_counter w3 > 1
              then
                let w4 = print ''bad state'' w3;
                    w5 = w4\<lparr>button_clicked := False\<rparr>
                in clear_device c w5
              else do_measure c w3
         else
           let w2 = w1\<lparr>miss_counter := 0\<rparr>
           in case struct_unpack_f data of
                Inl e \<Rightarrow> (Inl e, w2)
              | Inr distance_meters \<Rightarrow>
                  let distance_mm = times_1000 distance_meters;
                      w3 = print (''Distance: '' @ format_1f distance_mm @ '' mm'') w2;
                      (r1, w4) = send_keys (format_1f distance_mm) w3
                  in if isl r1 then (r1, w4)
                     else
                       let (r2, w5) = send_enter w4
                       in if isl r2 then (r2, w5)
                          else (Inr (), w5\<lparr>button_clicked := False\<rparr>))"

text \<open>
  The notifications of a run, handled one after the other. An exception that leaves the
  handler ends that invocation only; the next notification is handled in the world the
  failed invocation left behind.
\<close>

fun notify_all :: "client \<Rightarrow> 8 word list list \<Rightarrow> world \<Rightarrow> world" where
  "notify_all c [] w = w"
| "notify_all c (data # rest) w = notify_all c rest (snd (handle_distance_notification c data w))"

subsection \<open>\<open>scan_and_connect\<close>\<close>

text \<open>
  \<open>str.lower()\<close> on ASCII text: each of the letters \<open>A\<close> to \<open>Z\<close> becomes the small
  letter at the same place of the alphabet, every other character stays.
\<close>

definition lower_char :: "char \<Rightarrow> char" where
  "lower_char ch =
     (case map_of (zip ''ABCDEFGHIJKLMNOPQRSTUVWXYZ'' ''abcdefghijklmnopqrstuvwxyz'') ch of
        None \<Rightarrow> ch
      | Some l \<Rightarrow> l)"

definition lower :: "string \<Rightarrow> string" where
  "lower s = map lower_char s"

definition default_service_uuid :: string where
  "default_service_uuid = ''3ab10100-f831-4395-b29d-570977d5bf94''"

text \<open>
  The loop over the scanned devices. \<open>d.metadata["uuids"]\<close> raises \<open>KeyError\<close> when the
  dictionary has no such key; \<open>in\<close> on the list compares whole strings.
\<close>

fun find_target :: "string \<Rightarrow> device list \<Rightarrow> world \<Rightarrow> (error + device option) \<times> world" where
  "find_target service_uuid [] w = (Inr None, w)"
| "find_target service_uuid (d # ds) w0 =
     (let w1 = print (''Found device: '' @ address d @ '' - '' @ name d) w0
      in case metadata d ''uuids'' of
           None \<Rightarrow> (Inl Key_error, w1)
         | Some uuids \<Rightarrow>
             if lower service_uuid \<in> set uuids then (Inr (Some d), w1)
             else find_target service_uuid ds w1)"

text \<open>The \<open>except Exception\<close> clause of \<open>scan_and_connect\<close>.\<close>

definition scan_except :: "error \<Rightarrow> world \<Rightarrow> (error + client option) \<times> world" where
  "scan_except e w =
     (if is_Exception e then (Inr None, print ''Error scanning or connecting:'' w)
      else (Inl e, w))"

definition scan_and_connect ::
  "string \<Rightarrow> device list \<Rightarrow> world \<Rightarrow> (error + client option) \<times> world" where
  "scan_and_connect service_uuid devices w0 =
     (let w1 = print (''Scanning for devices with service UUID: '' @ service_uuid) w0;
          (r1, w2) = await Discover w1
      in case r1 of
           Inl e \<Rightarrow> scan_except e w2
         | Inr u \<Rightarrow>
             (case find_target service_uuid devices w2 of
                (Inl e, w3) \<Rightarrow> scan_except e w3
              | (Inr None, w3) \<Rightarrow> (Inr None, print ''Target device not found.'' w3)
              | (Inr (Some target_device), w3) \<Rightarrow>
                  let w4 = print (''Connecting to '' @ name target_device @ ''...'') w3;
                      (r2, w5) = await (Connect (address target_device)) w4
                  in case r2 of
                       Inl e \<Rightarrow> scan_except e w5
                     | Inr u \<Rightarrow> (Inr (Some (BleakClient target_device)), print ''Connected!'' w5)))"

subsection \<open>\<open>handle_notifications\<close> and \<open>main\<close>\<close>

text \<open>
  Between \<open>start_notify\<close> and the end of \<open>disconnect_event.wait()\<close> the Bluetooth stack
  calls the handler once for each notification; \<open>events\<close> are their payloads. The
  handler's exceptions stay in its own invocation and do not reach
  \<open>handle_notifications\<close>. The wait ends when the interrupt handler has set the event
  (\<open>Returns\<close>) or when the task is cancelled; a run that is never interrupted does not
  leave \<open>main\<close> and has no exit path.
\<close>

definition handle_notifications ::
  "client \<Rightarrow> 8 word list list \<Rightarrow> world \<Rightarrow> (error + unit) \<times> world" where
  "handle_notifications c events w0 =
     (if \<not> distance_characteristic c
      then (Inr (), print ''Distance characteristic not found.'' w0)
      else
        let (r1, w1) = await Start_notify w0
        in if isl r1 then (r1, w1)
           else await Wait_disconnect_event (notify_all c events w1))"

text \<open>The body of the \<open>try\<close> block of \<open>main\<close>.\<close>

definition main_try :: "client \<Rightarrow> 8 word list list \<Rightarrow> world \<Rightarrow> (error + unit) \<times> world" where
  "main_try c events w0 =
     (let (r1, w1) = clear_device c w0
      in if isl r1 then (r1, w1)
         else
           let (r2, w2) = call Add_signal_handler w1
           in if isl r2 then (r2, w2)
              else handle_notifications c events w2)"

text \<open>
  \<open>try\<close>, \<open>except Exception\<close> and \<open>finally\<close> around it: an \<open>Exception\<close> is printed and
  dropped, a cancellation stays pending, the \<open>finally\<close> clause runs in both cases and
  after a normal end, and an exception of \<open>disconnect\<close> replaces a pending one.
\<close>

definition main_connected ::
  "client \<Rightarrow> 8 word list list \<Rightarrow> world \<Rightarrow> (error + unit) \<times> world" where
  "main_connected c events w0 =
     (let (r1, w1) = main_try c events w0;
          (r2, w2) = (case r1 of
                        Inl e \<Rightarrow> if is_Exception e then (Inr (), print ''Error:'' w1)
                                 else (Inl e, w1)
                      | Inr u \<Rightarrow> (Inr (), w1));
          (r3, w3) = await Disconnect w2
      in (if isl r3 then r3 else r2, w3))"

definition main :: "device list \<Rightarrow> 8 word list list \<Rightarrow> world \<Rightarrow> (error + unit) \<times> world" where
  "main devices events w0 =
     (case scan_and_connect default_service_uuid devices w0 of
        (Inl e, w1) \<Rightarrow> (Inl e, w1)
      | (Inr None, w1) \<Rightarrow> (Inr (), w1)
      | (Inr (Some c), w1) \<Rightarrow> main_connected c events w1)"

subsection \<open>Reading a run\<close>

text \<open>
  The keystrokes of a run are the calls of the input tool in its trace, in order;
  \<open>invocations a w\<close> counts how often \<open>a\<close> was recorded; the writes are the commands
  sent to the device together with the pauses between them.
\<close>

fun is_keystroke :: "action \<Rightarrow> bool" where
  "is_keystroke (Subprocess_call args) = True"
| "is_keystroke _ = False"

definition keystrokes :: "world \<Rightarrow> action list" where
  "keystrokes w = filter is_keystroke (trace w)"

definition invocations :: "action \<Rightarrow> world \<Rightarrow> nat" where
  "invocations a w = count_list (trace w) a"

fun is_write :: "action \<Rightarrow> bool" where
  "is_write (Write_gatt_char bs) = True"
| "is_write (Sleep t) = True"
| "is_write _ = False"

definition writes :: "world \<Rightarrow> action list" where
  "writes w = filter is_write (trace w)"

text \<open>What the handler types for a 4-byte payload.\<close>

definition typed_text :: "8 word list \<Rightarrow> string" where
  "typed_text data = format_1f (times_1000 (float32_of_bits (le_bits data)))"

text \<open>
  Every notification that arrives while \<open>button_clicked\<close> is set carries four bytes.
\<close>

fun readings_well_formed :: "client \<Rightarrow> 8 word list list \<Rightarrow> world \<Rightarrow> bool" where
  "readings_well_formed c [] w = True"
| "readings_well_formed c (data # rest) w =
     ((button_clicked w \<longrightarrow> length data = 4) \<and>
      readings_well_formed c rest (snd (handle_distance_notification c data w)))"

text \<open>
  The handler takes its ``bad state'' branch in \<open>w\<close>: \<open>button_clicked\<close> is clear and the
  incremented counter is above 1.
\<close>

definition takes_bad_state_branch :: "world \<Rightarrow> bool" where
  "takes_bad_state_branch w \<longleftrightarrow> \<not> button_clicked w \<and> miss_counter w + 1 > 1"

text \<open>
  The two regular phases of the handler: idle with no miss counted, or waiting for the
  reading with one.
\<close>

definition in_phase :: "world \<Rightarrow> bool" where
  "in_phase w \<longleftrightarrow> (if button_clicked w then miss_counter w = 1 else miss_counter w = 0)"

text \<open>
  The states of the counter that a run from the initial state can reach: it is 0, or it
  is 1 while \<open>button_clicked\<close> is set.
\<close>

definition counter_consistent :: "world \<Rightarrow> bool" where
  "counter_consistent w \<longleftrightarrow> miss_counter w = 0 \<or> (button_clicked w \<and> miss_counter w = 1)"

subsection \<open>Concrete data for the examples\<close>

definition example_device :: device where
  "example_device =
     \<lparr>address = ''AA:BB:CC:DD:EE:FF'', name = ''DISTO'',
      metadata = [''uuids'' \<mapsto> [''3ab10100-f831-4395-b29d-570977d5bf94'']],
      has_command_characteristic = True, has_distance_characteristic = True\<rparr>"

text \<open>The same device advertising its service UUID in capital letters.\<close>

definition example_device_upper_case :: device where
  "example_device_upper_case =
     \<lparr>address = ''AA:BB:CC:DD:EE:FF'', name = ''DISTO'',
      metadata = [''uuids'' \<mapsto> [''3AB10100-F831-4395-B29D-570977D5BF94'']],
      has_command_characteristic = True, has_distance_characteristic = True\<rparr>"

definition example_client :: client where
  "example_client = BleakClient example_device"

section \<open>Properties\<close>

subsection \<open>What each operation changes\<close>

lemma record_action_fields [simp]:
  "button_clicked (record_action a w) = button_clicked w"
  "miss_counter (record_action a w) = miss_counter w"
  "awaits (record_action a w) = awaits w"
  "calls (record_action a w) = calls w"
  "trace (record_action a w) = trace w @ [a]"
  by (simp_all add: record_action_def)

lemma print_fields [simp]:
  "button_clicked (print s w) = button_clicked w"
  "miss_counter (print s w) = miss_counter w"
  "awaits (print s w) = awaits w"
  "calls (print s w) = calls w"
  "trace (print s w) = trace w @ [Print s]"
  by (simp_all add: print_def)

lemma await_fields [simp]:
  "button_clicked (snd (await a w)) = button_clicked w"
  "miss_counter (snd (await a w)) = miss_counter w"
  "awaits (snd (await a w)) = tl (awaits w)"
  "calls (snd (await a w)) = calls w"
  "trace (snd (await a w)) = trace w @ [a]"
  by (simp_all add: await_def Let_def split: list.splits outcome.splits)

lemma call_fields [simp]:
  "button_clicked (snd (call a w)) = button_clicked w"
  "miss_counter (snd (call a w)) = miss_counter w"
  "awaits (snd (call a w)) = awaits w"
  "calls (snd (call a w)) = tl (calls w)"
  "trace (snd (call a w)) = trace w @ [a]"
  by (simp_all add: call_def Let_def split: list.splits bool.splits)

lemma call_raises_Exception: "fst (call a w) = Inl e \<Longrightarrow> is_Exception e"
  by (auto simp: call_def Let_def split: list.splits bool.splits if_splits)

lemma send_keys_returns [simp]: "fst (send_keys keys w) = Inr ()"
  using call_raises_Exception [of "Subprocess_call [''xdotool'', ''type'', keys]" w]
  by (auto simp: send_keys_def split: prod.splits sum.splits)

lemma send_enter_returns [simp]: "fst (send_enter w) = Inr ()"
  using call_raises_Exception [of "Subprocess_call [''xdotool'', ''key'', ''Return'']" w]
  by (auto simp: send_enter_def split: prod.splits sum.splits)

lemma send_keys_fields [simp]:
  "button_clicked (snd (send_keys keys w)) = button_clicked w"
  "miss_counter (snd (send_keys keys w)) = miss_counter w"
  "awaits (snd (send_keys keys w)) = awaits w"
  by (simp_all add: send_keys_def split_beta split: sum.splits)

lemma send_enter_fields [simp]:
  "button_clicked (snd (send_enter w)) = button_clicked w"
  "miss_counter (snd (send_enter w)) = miss_counter w"
  "awaits (snd (send_enter w)) = awaits w"
  by (simp_all add: send_enter_def split_beta split: sum.splits)

lemma send_keys_keystrokes [simp]:
  "keystrokes (snd (send_keys keys w)) = keystrokes w @ [Subprocess_call [''xdotool'', ''type'', keys]]"
  by (simp add: send_keys_def keystrokes_def split_beta split: sum.splits)

lemma send_enter_keystrokes [simp]:
  "keystrokes (snd (send_enter w)) = keystrokes w @ [Subprocess_call [''xdotool'', ''key'', ''Return'']]"
  by (simp add: send_enter_def keystrokes_def split_beta split: sum.splits)

lemma send_keys_invocations [simp]:
  "invocations Enter_do_measure (snd (send_keys keys w)) = invocations Enter_do_measure w"
  "invocations Enter_clear_device (snd (send_keys keys w)) = invocations Enter_clear_device w"
  "invocations Disconnect (snd (send_keys keys w)) = invocations Disconnect w"
  by (simp_all add: send_keys_def invocations_def split_beta split: sum.splits)

lemma send_enter_invocations [simp]:
  "invocations Enter_do_measure (snd (send_enter w)) = invocations Enter_do_measure w"
  "invocations Enter_clear_device (snd (send_enter w)) = invocations Enter_clear_device w"
  "invocations Disconnect (snd (send_enter w)) = invocations Disconnect w"
  by (simp_all add: send_enter_def invocations_def split_beta split: sum.splits)

lemma do_measure_fields [simp]:
  "button_clicked (snd (do_measure c w)) = button_clicked w"
  "miss_counter (snd (do_measure c w)) = miss_counter w"
  "calls (snd (do_measure c w)) = calls w"
  by (simp_all add: do_measure_def Let_def split_beta)

lemma do_measure_keystrokes [simp]:
  "keystrokes (snd (do_measure c w)) = keystrokes w"
  by (simp add: do_measure_def keystrokes_def Let_def split_beta)

lemma do_measure_invocations [simp]:
  "invocations Enter_do_measure (snd (do_measure c w)) = invocations Enter_do_measure w + 1"
  "invocations Enter_clear_device (snd (do_measure c w)) = invocations Enter_clear_device w"
  "invocations Disconnect (snd (do_measure c w)) = invocations Disconnect w"
  by (simp_all add: do_measure_def invocations_def Let_def split_beta)

lemma clear_device_fields [simp]:
  "button_clicked (snd (clear_device c w)) = button_clicked w"
  "miss_counter (snd (clear_device c w)) = miss_counter w"
  "calls (snd (clear_device c w)) = calls w"
  by (simp_all add: clear_device_def Let_def split_beta)

lemma clear_device_keystrokes [simp]:
  "keystrokes (snd (clear_device c w)) = keystrokes w"
  by (simp add: clear_device_def keystrokes_def Let_def split_beta)

lemma clear_device_invocations [simp]:
  "invocations Enter_do_measure (snd (clear_device c w)) = invocations Enter_do_measure w"
  "invocations Enter_clear_device (snd (clear_device c w)) = invocations Enter_clear_device w + 1"
  "invocations Disconnect (snd (clear_device c w)) = invocations Disconnect w"
  by (simp_all add: clear_device_def invocations_def Let_def split_beta)

lemma projections_of_updates [simp]:
  "keystrokes (w\<lparr>button_clicked := b\<rparr>) = keystrokes w"
  "keystrokes (w\<lparr>miss_counter := n\<rparr>) = keystrokes w"
  "keystrokes (print s w) = keystrokes w"
  "invocations a (w\<lparr>button_clicked := b\<rparr>) = invocations a w"
  "invocations a (w\<lparr>miss_counter := n\<rparr>) = invocations a w"
  "invocations Enter_do_measure (print s w) = invocations Enter_do_measure w"
  "invocations Enter_clear_device (print s w) = invocations Enter_clear_device w"
  "invocations Disconnect (print s w) = invocations Disconnect w"
  by (simp_all add: keystrokes_def invocations_def)

text \<open>The branches of the handler, one equation each.\<close>

lemma handler_first_notification:
  assumes "\<not> button_clicked w" "miss_counter w \<le> 0"
  shows "handle_distance_notification c data w =
           do_measure c (print ''received event'' w
             \<lparr>button_clicked := True, miss_counter := miss_counter w + 1\<rparr>)"
  using assms by (simp add: handle_distance_notification_def Let_def)

lemma handler_bad_state:
  assumes "\<not> button_clicked w" "1 \<le> miss_counter w"
  shows "handle_distance_notification c data w =
           clear_device c (print ''bad state'' (print ''received event'' w
             \<lparr>button_clicked := True, miss_counter := miss_counter w + 1\<rparr>)
             \<lparr>button_clicked := False\<rparr>)"
  using assms by (simp add: handle_distance_notification_def Let_def)

lemma handler_malformed:
  assumes "button_clicked w" "length data \<noteq> 4"
  shows "handle_distance_notification c data w =
           (Inl Struct_error, print ''received event'' w\<lparr>miss_counter := 0\<rparr>)"
  using assms by (simp add: handle_distance_notification_def Let_def struct_unpack_f_def)

lemma handler_reading:
  assumes "button_clicked w" "length data = 4"
  shows "handle_distance_notification c data w =
           (Inr (), snd (send_enter (snd (send_keys (typed_text data)
               (print (''Distance: '' @ typed_text data @ '' mm'')
                  (print ''received event'' w\<lparr>miss_counter := 0\<rparr>)))))
               \<lparr>button_clicked := False\<rparr>)"
  using assms
  by (simp add: handle_distance_notification_def Let_def struct_unpack_f_def typed_text_def split_beta)


lemmas handler_defs =
  handle_distance_notification_def do_measure_def clear_device_def send_keys_def
  send_enter_def await_def call_def print_def record_action_def struct_unpack_f_def
  initial_def Let_def

lemma initial_fields [simp]:
  "button_clicked (initial as cs) = False"
  "miss_counter (initial as cs) = 0"
  "trace (initial as cs) = []"
  "keystrokes (initial as cs) = []"
  "invocations a (initial as cs) = 0"
  by (simp_all add: initial_def keystrokes_def invocations_def)

lemma handler_second_notification:
  assumes "button_clicked w"
  shows "miss_counter (snd (handle_distance_notification c data w)) = 0"
    and "invocations Enter_clear_device (snd (handle_distance_notification c data w)) =
           invocations Enter_clear_device w"
    and "invocations Enter_do_measure (snd (handle_distance_notification c data w)) =
           invocations Enter_do_measure w"
proof -
  show "miss_counter (snd (handle_distance_notification c data w)) = 0"
    using assms by (cases "length data = 4") (simp_all add: handler_reading handler_malformed)
  show "invocations Enter_clear_device (snd (handle_distance_notification c data w)) =
           invocations Enter_clear_device w"
    using assms by (cases "length data = 4") (simp_all add: handler_reading handler_malformed)
  show "invocations Enter_do_measure (snd (handle_distance_notification c data w)) =
           invocations Enter_do_measure w"
    using assms by (cases "length data = 4") (simp_all add: handler_reading handler_malformed)
qed

subsection \<open>The regular phases\<close>


lemma handler_keeps_phase:
  assumes "in_phase w" and "button_clicked w \<longrightarrow> length data = 4"
  shows "in_phase (snd (handle_distance_notification c data w))"
proof (cases "button_clicked w")
  case True
  with assms(2) have "length data = 4" by simp
  with True show ?thesis by (simp add: handler_reading in_phase_def)
next
  case False
  with assms(1) have "miss_counter w \<le> 0" by (simp add: in_phase_def)
  with False assms(1) show ?thesis by (simp add: handler_first_notification in_phase_def)
qed

lemma notify_all_keeps_phase:
  assumes "readings_well_formed c events w" and "in_phase w"
  shows "in_phase (notify_all c (take n events) w)"
  using assms
proof (induction events arbitrary: n w)
  case Nil
  then show ?case by simp
next
  case (Cons data rest)
  show ?case
  proof (cases n)
    case 0
    with Cons.prems show ?thesis by simp
  next
    case (Suc k)
    from Cons.prems have "in_phase (snd (handle_distance_notification c data w))"
      by (simp add: handler_keeps_phase)
    moreover from Cons.prems
    have "readings_well_formed c rest (snd (handle_distance_notification c data w))"
      by simp
    ultimately show ?thesis using Suc by (simp add: Cons.IH)
  qed
qed

text \<open>
  Claim C10. In every run from the initial state in which each notification that arrives
  while \<open>button_clicked\<close> is set carries four bytes, after every handler invocation (after
  the first \<open>n\<close> notifications, for every \<open>n\<close>) \<open>button_clicked\<close> set implies
  \<open>miss_counter = 1\<close>. It holds whatever the device has and however the external
  operations end.
\<close>

theorem awaiting_implies_one_miss:
  assumes "readings_well_formed c events (initial as cs)"
  shows "button_clicked (notify_all c (take n events) (initial as cs)) \<longrightarrow>
         miss_counter (notify_all c (take n events) (initial as cs)) = 1"
proof -
  have "in_phase (initial as cs)" by (simp add: in_phase_def)
  with assms have "in_phase (notify_all c (take n events) (initial as cs))"
    by (rule notify_all_keeps_phase)
  then show ?thesis by (simp add: in_phase_def)
qed

text \<open>
  A run that satisfies the hypothesis and ends with \<open>button_clicked\<close> set: a first
  notification, a reading of 0.5 m, and the first notification of the next press.
\<close>

theorem awaiting_implies_one_miss_witness:
  "readings_well_formed example_client [[], [0, 0, 0, 0x3F], []] (initial [] []) \<and>
   button_clicked (notify_all example_client (take 3 [[], [0, 0, 0, 0x3F], []]) (initial [] [])) \<and>
   miss_counter (notify_all example_client (take 3 [[], [0, 0, 0, 0x3F], []]) (initial [] [])) = 1"
proof -
  have wf: "readings_well_formed example_client [[], [0, 0, 0, 0x3F], []] (initial [] [])"
    by (simp add: handler_defs)
  have b: "button_clicked
             (notify_all example_client (take 3 [[], [0, 0, 0, 0x3F], []]) (initial [] []))"
    by (simp add: handler_defs)
  from awaiting_implies_one_miss [OF wf, of 3] wf b show ?thesis by simp
qed



subsection \<open>The counter and the forced reset\<close>

lemma print_invocations:
  "invocations b (print s w) = invocations b w + (if Print s = b then 1 else 0)"
  by (simp add: invocations_def)

lemma await_invocations:
  "invocations b (snd (await a w)) = invocations b w + (if a = b then 1 else 0)"
  by (simp add: invocations_def)

lemma call_invocations:
  "invocations b (snd (call a w)) = invocations b w + (if a = b then 1 else 0)"
  by (simp add: invocations_def)

lemma handler_keeps_consistent:
  assumes "counter_consistent w"
  shows "counter_consistent (snd (handle_distance_notification c data w))"
    and "invocations Enter_clear_device (snd (handle_distance_notification c data w)) =
           invocations Enter_clear_device w"
proof -
  show "counter_consistent (snd (handle_distance_notification c data w))"
  proof (cases "button_clicked w")
    case True
    then show ?thesis by (simp add: counter_consistent_def handler_second_notification)
  next
    case False
    with assms have "miss_counter w \<le> 0" by (simp add: counter_consistent_def)
    with False assms show ?thesis
      by (simp add: handler_first_notification counter_consistent_def)
  qed
  show "invocations Enter_clear_device (snd (handle_distance_notification c data w)) =
           invocations Enter_clear_device w"
  proof (cases "button_clicked w")
    case True
    then show ?thesis by (simp add: handler_second_notification)
  next
    case False
    with assms have "miss_counter w \<le> 0" by (simp add: counter_consistent_def)
    with False show ?thesis by (simp add: handler_first_notification)
  qed
qed

lemma notify_all_keeps_consistent:
  assumes "counter_consistent w"
  shows "counter_consistent (notify_all c events w) \<and>
         invocations Enter_clear_device (notify_all c events w) = invocations Enter_clear_device w"
  using assms
proof (induction events arbitrary: w)
  case Nil
  then show ?case by simp
next
  case (Cons data rest)
  from Cons.prems have "counter_consistent (snd (handle_distance_notification c data w))"
    by (rule handler_keeps_consistent)
  from Cons.IH [OF this] Cons.prems show ?case
    by (simp add: handler_keeps_consistent)
qed

lemma consistent_never_bad_state:
  assumes "counter_consistent w"
  shows "\<not> takes_bad_state_branch w"
  using assms by (auto simp: counter_consistent_def takes_bad_state_branch_def)

lemma run_from_initial:
  "counter_consistent (notify_all c events (initial as cs))"
  "invocations Enter_clear_device (notify_all c events (initial as cs)) = 0"
proof -
  have "counter_consistent (initial as cs)" by (simp add: counter_consistent_def)
  from notify_all_keeps_consistent [OF this, of c events]
  show "counter_consistent (notify_all c events (initial as cs))"
    and "invocations Enter_clear_device (notify_all c events (initial as cs)) = 0"
    by simp_all
qed

text \<open>
  Claim C1. In every run from the initial state, after any number \<open>n\<close> of its
  notifications, \<open>miss_counter\<close> is at most 2, the handler has not invoked \<open>clear_device\<close>,
  and the state is not one in which the next notification takes the ``bad state''
  branch. So the counter keeps the claimed bound, and no forced reset occurs in such a
  run: there is no state after a forced reset, and none that differs from
  \<open>button_clicked\<close> clear and \<open>miss_counter = 0\<close>.
\<close>

theorem miss_counter_bounded_and_no_forced_reset:
  "miss_counter (notify_all c (take n events) (initial as cs)) \<le> 2 \<and>
   invocations Enter_clear_device (notify_all c (take n events) (initial as cs)) = 0 \<and>
   \<not> takes_bad_state_branch (notify_all c (take n events) (initial as cs))"
proof -
  have cc: "counter_consistent (notify_all c (take n events) (initial as cs))"
    by (rule run_from_initial)
  then have "miss_counter (notify_all c (take n events) (initial as cs)) \<le> 2"
    by (auto simp: counter_consistent_def)
  moreover have "invocations Enter_clear_device (notify_all c (take n events) (initial as cs)) = 0"
    by (rule run_from_initial)
  moreover from cc have "\<not> takes_bad_state_branch (notify_all c (take n events) (initial as cs))"
    by (rule consistent_never_bad_state)
  ultimately show ?thesis by simp
qed

text \<open>
  The second half of the claim in its own words: if the notification that follows the
  first \<open>n\<close> took the ``bad state'' branch, it would leave \<open>button_clicked\<close> clear and
  \<open>miss_counter\<close> at 0. It holds because its premise never does.
\<close>

lemma after_forced_reset_from_initial:
  "takes_bad_state_branch (notify_all c (take n events) (initial as cs)) \<longrightarrow>
     \<not> button_clicked (snd (handle_distance_notification c data
         (notify_all c (take n events) (initial as cs)))) \<and>
     miss_counter (snd (handle_distance_notification c data
         (notify_all c (take n events) (initial as cs)))) = 0"
  using consistent_never_bad_state [OF run_from_initial(1), of c "take n events" as cs]
  by simp

lemma handler_no_bad_state_message:
  assumes "counter_consistent w"
  shows "invocations (Print ''bad state'') (snd (handle_distance_notification c data w)) =
           invocations (Print ''bad state'') w"
proof (cases "button_clicked w")
  case True
  show ?thesis
  proof (cases "length data = 4")
    case True
    with \<open>button_clicked w\<close> show ?thesis
      by (simp add: handler_reading send_enter_def send_keys_def split_beta call_invocations
          print_invocations invocations_def split: sum.splits)
  next
    case False
    with \<open>button_clicked w\<close> show ?thesis
      by (simp add: handler_malformed invocations_def)
  qed
next
  case False
  with assms have "miss_counter w \<le> 0" by (simp add: counter_consistent_def)
  with False show ?thesis
    by (simp add: handler_first_notification do_measure_def Let_def split_beta invocations_def)
qed

lemma notify_all_no_bad_state_message:
  assumes "counter_consistent w"
  shows "invocations (Print ''bad state'') (notify_all c events w) =
           invocations (Print ''bad state'') w"
  using assms
proof (induction events arbitrary: w)
  case Nil
  then show ?case by simp
next
  case (Cons data rest)
  from Cons.prems have "counter_consistent (snd (handle_distance_notification c data w))"
    by (rule handler_keeps_consistent)
  from Cons.IH [OF this] Cons.prems show ?case
    by (simp add: handler_no_bad_state_message)
qed

text \<open>
  Claim C5 is about the runs that contain a notification which triggers the ``bad
  state'' reset: after it \<open>miss_counter\<close> would stay at 2 or more, \<open>do_measure\<close> would not
  be invoked again and nothing more would be typed. No run from the initial state
  contains such a notification: after any number \<open>n\<close> of notifications the state is not
  one in which the next notification takes the branch, and the message ``bad state'' is
  never printed. So the claim holds of every run, there being no such notification in
  it.
\<close>

theorem no_run_triggers_bad_state:
  "\<not> takes_bad_state_branch (notify_all c (take n events) (initial as cs)) \<and>
   invocations (Print ''bad state'') (notify_all c events (initial as cs)) = 0"
proof -
  have "counter_consistent (initial as cs)" by (simp add: counter_consistent_def)
  then have "invocations (Print ''bad state'') (notify_all c events (initial as cs)) =
               invocations (Print ''bad state'') (initial as cs)"
    by (rule notify_all_no_bad_state_message)
  moreover have "\<not> takes_bad_state_branch (notify_all c (take n events) (initial as cs))"
    using run_from_initial(1) by (rule consistent_never_bad_state)
  ultimately show ?thesis by simp
qed

text \<open>
  What the branch does in a state in which it is taken, which is no state of a run from
  the initial state: it clears \<open>button_clicked\<close>, invokes \<open>clear_device\<close> once and leaves
  \<open>miss_counter\<close> at the value it has just incremented, so that every later notification
  takes the branch again, \<open>do_measure\<close> is not invoked and nothing is typed.
\<close>

lemma forced_reset_step:
  assumes "takes_bad_state_branch w"
  shows "\<not> button_clicked (snd (handle_distance_notification c data w))"
    and "miss_counter (snd (handle_distance_notification c data w)) = miss_counter w + 1"
    and "invocations Enter_clear_device (snd (handle_distance_notification c data w)) =
           invocations Enter_clear_device w + 1"
    and "invocations Enter_do_measure (snd (handle_distance_notification c data w)) =
           invocations Enter_do_measure w"
    and "keystrokes (snd (handle_distance_notification c data w)) = keystrokes w"
  using assms by (simp_all add: takes_bad_state_branch_def handler_bad_state)

lemma forced_reset_repeats:
  assumes "takes_bad_state_branch w"
  shows "takes_bad_state_branch (snd (handle_distance_notification c data w))"
  using assms forced_reset_step(1,2) [OF assms, of c data]
  by (simp add: takes_bad_state_branch_def)

lemma bad_state_run:
  assumes "takes_bad_state_branch w"
  shows "takes_bad_state_branch (notify_all c events w) \<and>
         miss_counter (notify_all c events w) = miss_counter w + int (length events) \<and>
         invocations Enter_do_measure (notify_all c events w) = invocations Enter_do_measure w \<and>
         keystrokes (notify_all c events w) = keystrokes w \<and>
         invocations Enter_clear_device (notify_all c events w) =
           invocations Enter_clear_device w + length events"
  using assms
proof (induction events arbitrary: w)
  case Nil
  then show ?case by simp
next
  case (Cons data rest)
  from Cons.prems have "takes_bad_state_branch (snd (handle_distance_notification c data w))"
    by (rule forced_reset_repeats)
  from Cons.IH [OF this] show ?case
    by (simp add: forced_reset_step [OF Cons.prems])
qed

subsection \<open>Malformed payloads\<close>

text \<open>
  Claim C2 says that a payload of a length other than 4 that arrives while
  \<open>button_clicked\<close> is set leaves \<open>button_clicked\<close> clear. After a first notification
  \<open>button_clicked\<close> is set; an empty payload then makes \<open>struct.unpack\<close> raise, the
  exception leaves the handler, and \<open>button_clicked\<close> is still set.
\<close>

theorem malformed_payload_leaves_button_set:
  "button_clicked (snd (handle_distance_notification example_client [] (initial [] []))) \<and>
   length ([] :: 8 word list) \<noteq> 4 \<and>
   fst (handle_distance_notification example_client []
     (snd (handle_distance_notification example_client [] (initial [] [])))) = Inl Struct_error \<and>
   button_clicked (snd (handle_distance_notification example_client []
     (snd (handle_distance_notification example_client [] (initial [] [])))))"
proof -
  have b: "button_clicked (snd (handle_distance_notification example_client [] (initial [] [])))"
    by (simp add: handler_first_notification)
  then show ?thesis by (simp add: handler_malformed)
qed

text \<open>
  Claim C2, amended. A payload of a length other than 4 that arrives while \<open>button_clicked\<close>
  is set types nothing and resets \<open>miss_counter\<close> to 0; the handler does not catch the
  \<open>struct.error\<close>, which leaves it, and \<open>button_clicked\<close> stays set.
\<close>

theorem malformed_payload:
  assumes "button_clicked w" and "length data \<noteq> 4"
  shows "fst (handle_distance_notification c data w) = Inl Struct_error \<and>
         keystrokes (snd (handle_distance_notification c data w)) = keystrokes w \<and>
         miss_counter (snd (handle_distance_notification c data w)) = 0 \<and>
         button_clicked (snd (handle_distance_notification c data w))"
  using assms by (simp add: handler_malformed)

text \<open>A payload of three bytes in the state after a first notification.\<close>

theorem malformed_payload_witness:
  "button_clicked \<lparr>button_clicked = True, miss_counter = 1, awaits = [], calls = [], trace = []\<rparr> \<and>
   length [0x19, 0x04, 0x9E :: 8 word] \<noteq> 4 \<and>
   fst (handle_distance_notification example_client [0x19, 0x04, 0x9E]
     \<lparr>button_clicked = True, miss_counter = 1, awaits = [], calls = [], trace = []\<rparr>)
     = Inl Struct_error \<and>
   keystrokes (snd (handle_distance_notification example_client [0x19, 0x04, 0x9E]
     \<lparr>button_clicked = True, miss_counter = 1, awaits = [], calls = [], trace = []\<rparr>)) = [] \<and>
   miss_counter (snd (handle_distance_notification example_client [0x19, 0x04, 0x9E]
     \<lparr>button_clicked = True, miss_counter = 1, awaits = [], calls = [], trace = []\<rparr>)) = 0 \<and>
   button_clicked (snd (handle_distance_notification example_client [0x19, 0x04, 0x9E]
     \<lparr>button_clicked = True, miss_counter = 1, awaits = [], calls = [], trace = []\<rparr>))"
proof -
  have h1: "button_clicked
     \<lparr>button_clicked = True, miss_counter = 1, awaits = [], calls = [], trace = []\<rparr>"
    by simp
  have h2: "length [0x19, 0x04, 0x9E :: 8 word] \<noteq> 4" by simp
  from malformed_payload [OF h1 h2, of example_client] show ?thesis
    by (simp add: keystrokes_def)
qed

subsection \<open>Two notifications from the initial state\<close>

lemma first_notification_from_initial:
  "button_clicked (snd (handle_distance_notification c d1 (initial as cs)))"
  "miss_counter (snd (handle_distance_notification c d1 (initial as cs))) = 1"
  "invocations Enter_do_measure (snd (handle_distance_notification c d1 (initial as cs))) = 1"
  "invocations Enter_clear_device (snd (handle_distance_notification c d1 (initial as cs))) = 0"
  "keystrokes (snd (handle_distance_notification c d1 (initial as cs))) = []"
  by (simp_all add: handler_first_notification)

text \<open>
  Claim C3 says that two notifications in a row with no reading in between make the
  handler invoke \<open>clear_device\<close> once. Whatever the two payloads are, the first
  notification invokes \<open>do_measure\<close> and the second one is taken for the reading: the
  counter is reset to 0, \<open>clear_device\<close> is not invoked.
\<close>

theorem two_notifications_never_disarm:
  "invocations Enter_clear_device (notify_all c [d1, d2] (initial as cs)) = 0 \<and>
   invocations Enter_do_measure (notify_all c [d1, d2] (initial as cs)) = 1 \<and>
   miss_counter (notify_all c [d1, d2] (initial as cs)) = 0"
  by (simp add: handler_second_notification first_notification_from_initial)

text \<open>
  With two empty payloads the second notification raises \<open>struct.error\<close> and leaves
  \<open>button_clicked\<close> set.
\<close>

lemma two_empty_notifications:
  "invocations Enter_clear_device (notify_all example_client [[], []] (initial [] [])) = 0 \<and>
   keystrokes (notify_all example_client [[], []] (initial [] [])) = [] \<and>
   button_clicked (notify_all example_client [[], []] (initial [] [])) \<and>
   miss_counter (notify_all example_client [[], []] (initial [] [])) = 0"
  by (simp add: handler_second_notification first_notification_from_initial handler_malformed)

lemma press_then_reading:
  assumes "length d2 = 4"
  shows "invocations Enter_do_measure (notify_all c [d1, d2] (initial as cs)) = 1"
    and "keystrokes (notify_all c [d1, d2] (initial as cs)) =
           [Subprocess_call [''xdotool'', ''type'', typed_text d2],
            Subprocess_call [''xdotool'', ''key'', ''Return'']]"
    and "\<not> button_clicked (notify_all c [d1, d2] (initial as cs))"
    and "miss_counter (notify_all c [d1, d2] (initial as cs)) = 0"
    and "invocations Enter_clear_device (notify_all c [d1, d2] (initial as cs)) = 0"
  using assms
  by (simp_all add: handler_reading first_notification_from_initial)

text \<open>
  Claim C4. A first notification followed by a notification with a 4-byte payload, from
  the initial state: \<open>do_measure\<close> is invoked once, the keystrokes are the formatted
  distance followed by one Return, and the state is back at \<open>button_clicked\<close> clear and
  \<open>miss_counter = 0\<close>. It holds for every payload of the first notification and however
  the external operations end.
\<close>

theorem echo_then_reading:
  assumes "length d2 = 4"
  shows "invocations Enter_do_measure (notify_all c [d1, d2] (initial as cs)) = 1 \<and>
         keystrokes (notify_all c [d1, d2] (initial as cs)) =
           [Subprocess_call [''xdotool'', ''type'', typed_text d2],
            Subprocess_call [''xdotool'', ''key'', ''Return'']] \<and>
         \<not> button_clicked (notify_all c [d1, d2] (initial as cs)) \<and>
         miss_counter (notify_all c [d1, d2] (initial as cs)) = 0"
  using press_then_reading [OF assms] by simp

lemma typed_text_half_metre: "typed_text [0, 0, 0, 0x3F] = ''500.0''"
  by (simp add: typed_text_def float32_of_bits_def round_half_even_def Let_def)

text \<open>
  The scenario of the specification: a reading of 0.5 m (bytes \<open>00 00 00 3F\<close>) types
  \<open>500.0\<close>, here in a run in which the call of the input tool for the text raises.
\<close>

theorem echo_then_reading_witness:
  "length [0, 0, 0, 0x3F :: 8 word] = 4 \<and>
   invocations Enter_do_measure
     (notify_all example_client [[], [0, 0, 0, 0x3F]] (initial [] [True])) = 1 \<and>
   keystrokes (notify_all example_client [[], [0, 0, 0, 0x3F]] (initial [] [True])) =
     [Subprocess_call [''xdotool'', ''type'', ''500.0''],
      Subprocess_call [''xdotool'', ''key'', ''Return'']] \<and>
   \<not> button_clicked (notify_all example_client [[], [0, 0, 0, 0x3F]] (initial [] [True])) \<and>
   miss_counter (notify_all example_client [[], [0, 0, 0, 0x3F]] (initial [] [True])) = 0"
proof -
  have h: "length [0, 0, 0, 0x3F :: 8 word] = 4" by simp
  from echo_then_reading [OF h, of example_client "[]" "[]" "[True]"] show ?thesis
    by (simp add: typed_text_half_metre)
qed

subsection \<open>Metres to millimetres\<close>

lemma times_1000_is_double:
  assumes "float32_of_bits n = Finite s m e"
  shows "m * 1000 < 2 ^ 53 \<and> - 1074 \<le> e \<and> e \<le> 971"
proof -
  define f where "f = n mod 2 ^ 23"
  define x where "x = (n div 2 ^ 23) mod 256"
  have f: "f < 8388608" by (simp add: f_def)
  have x: "x < 256" by (simp add: x_def)
  from assms have "(m = f \<and> e = - 149) \<or> (m = 8388608 + f \<and> e = int x - 150)"
    by (auto simp: float32_of_bits_def Let_def f_def x_def split: if_splits)
  with f x show ?thesis by auto
qed

lemma typed_text_1_2345: "typed_text [0x19, 0x04, 0x9E, 0x3F] = ''1234.5''"
  by (simp add: typed_text_def float32_of_bits_def round_half_even_def Let_def)

text \<open>
  Claim C7. The bytes \<open>19 04 9E 3F\<close> are the single \<open>10355737 * 2 ^ -23\<close>, which is the
  single nearest to 1.2345 (it differs from it by less than half a unit of the last
  place, \<open>2 ^ -24\<close>). Delivered as the reading after a first notification, it is typed as
  \<open>1234.5\<close>: the value times 1000 with one digit after the point.
\<close>

theorem reading_1_2345_types_1234_5:
  "struct_unpack_f [0x19, 0x04, 0x9E, 0x3F] = Inr (Finite False 10355737 (- 23)) \<and>
   \<bar>10355737 / 2 ^ 23 - 12345 / 10000\<bar> \<le> (1 / 2 ^ 24 :: rat) \<and>
   keystrokes (notify_all c [d1, [0x19, 0x04, 0x9E, 0x3F]] (initial as cs)) =
     [Subprocess_call [''xdotool'', ''type'', ''1234.5''],
      Subprocess_call [''xdotool'', ''key'', ''Return'']]"
proof -
  have "struct_unpack_f [0x19, 0x04, 0x9E, 0x3F] = Inr (Finite False 10355737 (- 23))"
    by (simp add: struct_unpack_f_def float32_of_bits_def Let_def)
  moreover have "\<bar>10355737 / 2 ^ 23 - 12345 / 10000\<bar> \<le> (1 / 2 ^ 24 :: rat)"
    by simp
  moreover have "keystrokes (notify_all c [d1, [0x19, 0x04, 0x9E, 0x3F]] (initial as cs)) =
     [Subprocess_call [''xdotool'', ''type'', ''1234.5''],
      Subprocess_call [''xdotool'', ''key'', ''Return'']]"
    using press_then_reading(2) [of "[0x19, 0x04, 0x9E, 0x3F]" c d1 as cs]
    by (simp add: typed_text_1_2345)
  ultimately show ?thesis by simp
qed



subsection \<open>The two writes of \<open>do_measure\<close>\<close>

lemma await_returns:
  assumes "\<forall>x \<in> set (take 1 (awaits w)). x = Returns"
  shows "await a w = (Inr (), (record_action a w)\<lparr>awaits := tl (awaits w)\<rparr>)"
  using assms by (cases "awaits w") (auto simp: await_def Let_def split: outcome.splits)

text \<open>
  Claim C8 says that every invocation of \<open>do_measure\<close> performs the two writes. On a
  connection whose command characteristic is not found, \<open>do_measure\<close> prints a message
  and returns: it writes nothing.
\<close>

theorem do_measure_without_command_characteristic:
  "fst (do_measure
          \<lparr>client_address = ''AA:BB:CC:DD:EE:FF'', command_characteristic = False,
           distance_characteristic = True\<rparr> (initial [] [])) = Inr () \<and>
   writes (snd (do_measure
          \<lparr>client_address = ''AA:BB:CC:DD:EE:FF'', command_characteristic = False,
           distance_characteristic = True\<rparr> (initial [] []))) = []"
  by (simp add: do_measure_def writes_def Let_def)

text \<open>The same for every client without the command characteristic, in every world.\<close>

lemma do_measure_not_found:
  assumes "\<not> command_characteristic c"
  shows "fst (do_measure c w) = Inr ()" and "writes (snd (do_measure c w)) = writes w"
  using assms by (simp_all add: do_measure_def writes_def Let_def)

text \<open>
  Claim C8, amended. Every invocation of \<open>do_measure\<close> that finds the command
  characteristic, and in which neither of the writes nor the pause between them fails,
  performs exactly two writes in this order: the byte \<open>0x6F\<close>, then, after a pause of
  \<open>AIM_DELAY = 1.5\<close> seconds, the byte \<open>0x67\<close>; nothing else is done in between.
\<close>

theorem do_measure_writes:
  assumes "command_characteristic c" and "set (take 3 (awaits w)) \<subseteq> {Returns}"
  shows "fst (do_measure c w) = Inr () \<and>
         trace (snd (do_measure c w)) =
           trace w @ [Enter_do_measure, Write_gatt_char [0x6F], Sleep (3 / 2), Write_gatt_char [0x67]]"
proof -
  let ?w1 = "record_action Enter_do_measure w"
  let ?w2 = "(record_action (Write_gatt_char laser_on) ?w1)\<lparr>awaits := tl (awaits w)\<rparr>"
  let ?w3 = "(record_action (Sleep AIM_DELAY) ?w2)\<lparr>awaits := tl (tl (awaits w))\<rparr>"
  from assms(2) have three: "\<forall>x \<in> set (take 3 (awaits w)). x = Returns"
    by auto
  from three have a1: "\<forall>x \<in> set (take 1 (awaits ?w1)). x = Returns"
    by (cases "awaits w") auto
  from three have a2: "\<forall>x \<in> set (take 1 (awaits ?w2)). x = Returns"
    by (cases "awaits w"; cases "tl (awaits w)") auto
  from three have a3: "\<forall>x \<in> set (take 1 (awaits ?w3)). x = Returns"
    by (cases "awaits w"; cases "tl (awaits w)"; cases "tl (tl (awaits w))") auto
  have e1: "await (Write_gatt_char laser_on) ?w1 = (Inr (), ?w2)"
    using await_returns [OF a1] by simp
  have e2: "await (Sleep AIM_DELAY) ?w2 = (Inr (), ?w3)"
    using await_returns [OF a2] by simp
  have e3: "await (Write_gatt_char measure) ?w3 =
              (Inr (), (record_action (Write_gatt_char measure) ?w3)\<lparr>awaits := tl (awaits ?w3)\<rparr>)"
    using await_returns [OF a3] by simp
  from assms(1) have "do_measure c w =
      (Inr (), (record_action (Write_gatt_char measure) ?w3)\<lparr>awaits := tl (awaits ?w3)\<rparr>)"
    unfolding do_measure_def Let_def by (simp only: e1 e2 e3 if_False if_True split_conv sum.disc simp_thms)
  then show ?thesis
    by (simp add: laser_on_def measure_def AIM_DELAY_def)
qed

text \<open>The three operations return and a fourth one would raise.\<close>

theorem do_measure_writes_witness:
  "command_characteristic example_client \<and>
   set (take 3 [Returns, Returns, Returns, Raises]) \<subseteq> {Returns} \<and>
   fst (do_measure example_client (initial [Returns, Returns, Returns, Raises] [])) = Inr () \<and>
   trace (snd (do_measure example_client (initial [Returns, Returns, Returns, Raises] []))) =
     [Enter_do_measure, Write_gatt_char [0x6F], Sleep (3 / 2), Write_gatt_char [0x67]]"
proof -
  have h1: "command_characteristic example_client"
    by (simp add: example_client_def BleakClient_def example_device_def)
  have h2: "set (take 3 (awaits (initial [Returns, Returns, Returns, Raises] []))) \<subseteq> {Returns}"
    by (simp add: initial_def)
  from do_measure_writes [OF h1 h2] h1 show ?thesis by simp
qed

subsection \<open>Disconnecting\<close>

lemma handler_no_disconnect:
  "invocations Disconnect (snd (handle_distance_notification c data w)) = invocations Disconnect w"
  by (simp add: handle_distance_notification_def Let_def split_beta split: sum.splits)

lemma notify_all_no_disconnect:
  "invocations Disconnect (notify_all c events w) = invocations Disconnect w"
  by (induction events arbitrary: w) (simp_all add: handler_no_disconnect)

lemma handle_notifications_no_disconnect:
  "invocations Disconnect (snd (handle_notifications c events w)) = invocations Disconnect w"
  by (simp add: handle_notifications_def Let_def split_beta await_invocations
      notify_all_no_disconnect)

lemma main_try_no_disconnect:
  "invocations Disconnect (snd (main_try c events w)) = invocations Disconnect w"
  by (simp add: main_try_def Let_def split_beta call_invocations
      handle_notifications_no_disconnect)

lemma main_connected_disconnects_once:
  "invocations Disconnect (snd (main_connected c events w)) = invocations Disconnect w + 1"
  "last (trace (snd (main_connected c events w))) = Disconnect"
  by (simp_all add: main_connected_def Let_def split_beta await_invocations
      main_try_no_disconnect split: sum.splits)

lemma find_target_no_disconnect:
  "invocations Disconnect (snd (find_target u ds w)) = invocations Disconnect w"
  by (induction ds arbitrary: w) (simp_all add: Let_def split: option.splits)

lemma scan_except_no_disconnect:
  "invocations Disconnect (snd (scan_except e w)) = invocations Disconnect w"
  by (simp add: scan_except_def)

lemma scan_and_connect_no_disconnect:
  "invocations Disconnect (snd (scan_and_connect u ds w)) = invocations Disconnect w"
  by (simp add: scan_and_connect_def Let_def split_beta await_invocations
      find_target_no_disconnect scan_except_no_disconnect
      split: sum.splits option.splits)

text \<open>
  Claim C9. Once \<open>scan_and_connect\<close> has returned a client, \<open>main\<close> attempts
  \<open>disconnect\<close> exactly once, as its last operation, on every path out of it: whether
  the \<open>try\<close> block ends normally, raises an exception or is cancelled, whatever
  notifications arrive and however the external operations end.
\<close>

theorem disconnect_exactly_once:
  assumes "fst (scan_and_connect default_service_uuid devices (initial as cs)) = Inr (Some c)"
  shows "invocations Disconnect (snd (main devices events (initial as cs))) = 1 \<and>
         last (trace (snd (main devices events (initial as cs)))) = Disconnect"
proof -
  obtain w1 where s: "scan_and_connect default_service_uuid devices (initial as cs) = (Inr (Some c), w1)"
    using assms by (cases "scan_and_connect default_service_uuid devices (initial as cs)") simp
  have "invocations Disconnect (snd (scan_and_connect default_service_uuid devices (initial as cs))) = 0"
    by (simp add: scan_and_connect_no_disconnect)
  with s have "invocations Disconnect w1 = 0" by simp
  moreover from s have "main devices events (initial as cs) = main_connected c events w1"
    by (simp add: main_def)
  ultimately show ?thesis by (simp add: main_connected_disconnects_once)
qed

text \<open>
  A run that is cancelled while it waits for the interrupt: the cancellation leaves
  \<open>main\<close>, after one \<open>disconnect\<close>.
\<close>

theorem disconnect_exactly_once_witness:
  "fst (scan_and_connect default_service_uuid [example_device]
          (initial [Returns, Returns, Returns, Returns, Cancelled] [])) = Inr (Some example_client) \<and>
   fst (main [example_device] [] (initial [Returns, Returns, Returns, Returns, Cancelled] []))
     = Inl Cancelled_error \<and>
   invocations Disconnect
     (snd (main [example_device] [] (initial [Returns, Returns, Returns, Returns, Cancelled] []))) = 1 \<and>
   last (trace
     (snd (main [example_device] [] (initial [Returns, Returns, Returns, Returns, Cancelled] []))))
     = Disconnect"
proof -
  have h: "fst (scan_and_connect default_service_uuid [example_device]
          (initial [Returns, Returns, Returns, Returns, Cancelled] [])) = Inr (Some example_client)"
    by (simp add: scan_and_connect_def Let_def example_device_def example_client_def
        default_service_uuid_def lower_def lower_char_def await_def initial_def
        print_def record_action_def)
  have r: "fst (main [example_device] [] (initial [Returns, Returns, Returns, Returns, Cancelled] []))
     = Inl Cancelled_error"
    by (simp add: main_def main_connected_def main_try_def handle_notifications_def
        clear_device_def scan_and_connect_def Let_def example_device_def BleakClient_def
        default_service_uuid_def lower_def lower_char_def await_def call_def initial_def
        print_def record_action_def)
  from disconnect_exactly_once [OF h, of "[]"] h r show ?thesis by simp
qed

text \<open>Without a client \<open>main\<close> returns at once and never disconnects.\<close>

lemma no_client_no_disconnect:
  assumes "fst (scan_and_connect default_service_uuid devices w) = Inr None"
  shows "fst (main devices events w) = Inr ()"
    and "invocations Disconnect (snd (main devices events w)) = invocations Disconnect w"
proof -
  obtain w1 where s: "scan_and_connect default_service_uuid devices w = (Inr None, w1)"
    using assms by (cases "scan_and_connect default_service_uuid devices w") simp
  then show "fst (main devices events w) = Inr ()" by (simp add: main_def)
  have "invocations Disconnect (snd (scan_and_connect default_service_uuid devices w)) =
          invocations Disconnect w"
    by (rule scan_and_connect_no_disconnect)
  with s show "invocations Disconnect (snd (main devices events w)) = invocations Disconnect w"
    by (simp add: main_def)
qed

subsection \<open>Matching the service UUID\<close>

text \<open>
  Claim C6 says that a device advertising the target UUID in any letter case is
  accepted. The source lowers the filter only (\<open>service_uuid.lower() in
  d.metadata["uuids"]\<close>, with the comment ``Case-insensitive comparison''); the advertised
  strings are compared as they are. A device that advertises the UUID in capital
  letters, equal to the filter when both are lowered, is not accepted:
  \<open>scan_and_connect\<close> returns \<open>None\<close> and does not connect.
\<close>

theorem upper_case_uuid_is_not_matched:
  "lower ''3AB10100-F831-4395-B29D-570977D5BF94'' = lower default_service_uuid \<and>
   metadata example_device_upper_case ''uuids'' = Some [''3AB10100-F831-4395-B29D-570977D5BF94''] \<and>
   fst (scan_and_connect default_service_uuid [example_device_upper_case] (initial [] [])) = Inr None \<and>
   invocations (Connect ''AA:BB:CC:DD:EE:FF'')
     (snd (scan_and_connect default_service_uuid [example_device_upper_case] (initial [] []))) = 0"
  by (simp add: scan_and_connect_def Let_def example_device_upper_case_def
        default_service_uuid_def lower_def lower_char_def await_def initial_def
        print_def record_action_def invocations_def)

text \<open>
  The same device advertising the UUID in small letters is accepted, also when it comes
  second in the scan.
\<close>

lemma lower_case_uuid_is_matched:
  "fst (scan_and_connect default_service_uuid [example_device_upper_case, example_device]
          (initial [] [])) = Inr (Some example_client) \<and>
   invocations (Connect ''AA:BB:CC:DD:EE:FF'')
     (snd (scan_and_connect default_service_uuid [example_device_upper_case, example_device]
            (initial [] []))) = 1"
  by (simp add: scan_and_connect_def Let_def example_device_upper_case_def example_device_def
        example_client_def default_service_uuid_def lower_def lower_char_def await_def initial_def
        print_def record_action_def invocations_def)



text \<open>
  The rest of the claim holds: the first device whose list has the lowered filter is the
  target, and when no device has it, no client is returned and nothing is connected.
\<close>

lemma find_target_no_match:
  assumes "\<forall>d \<in> set ds. \<exists>uuids. metadata d ''uuids'' = Some uuids \<and> lower u \<notin> set uuids"
  shows "fst (find_target u ds w) = Inr None"
  using assms by (induction ds arbitrary: w) (auto simp: Let_def)

lemma find_target_no_connect:
  "invocations (Connect a) (snd (find_target u ds w)) = invocations (Connect a) w"
  by (induction ds arbitrary: w) (simp_all add: Let_def invocations_def split: option.splits)

lemma find_target_first_match:
  assumes "\<forall>d \<in> set ds. \<exists>uuids. metadata d ''uuids'' = Some uuids \<and> lower u \<notin> set uuids"
    and "metadata d ''uuids'' = Some uuids" and "lower u \<in> set uuids"
  shows "fst (find_target u (ds @ d # ds') w) = Inr (Some d)"
  using assms by (induction ds arbitrary: w) (auto simp: Let_def)

lemma no_match_no_connection:
  assumes "\<forall>d \<in> set ds. \<exists>uuids. metadata d ''uuids'' = Some uuids \<and> lower u \<notin> set uuids"
  shows "fst (scan_and_connect u ds w) \<noteq> Inr (Some c)"
    and "invocations (Connect a) (snd (scan_and_connect u ds w)) = invocations (Connect a) w"
proof -
  let ?w = "snd (await Discover (print (''Scanning for devices with service UUID: '' @ u) w))"
  have ft: "fst (find_target u ds ?w) = Inr None"
    using assms by (rule find_target_no_match)
  then obtain w3 where f: "find_target u ds ?w = (Inr None, w3)"
    by (cases "find_target u ds ?w") simp
  have "invocations (Connect a) (snd (find_target u ds ?w)) = invocations (Connect a) w"
    by (simp add: find_target_no_connect await_invocations print_invocations)
  with f have w3: "invocations (Connect a) w3 = invocations (Connect a) w" by simp
  show "fst (scan_and_connect u ds w) \<noteq> Inr (Some c)"
    using f by (simp add: scan_and_connect_def Let_def split_beta scan_except_def split: sum.splits)
  show "invocations (Connect a) (snd (scan_and_connect u ds w)) = invocations (Connect a) w"
    using f w3
    by (simp add: scan_and_connect_def Let_def split_beta scan_except_def await_invocations
        print_invocations split: sum.splits)
qed


end
